theory Spec2Isabelle
  imports Main "HOL-Library.Word"
begin

unbundle bit_operations_syntax

section \<open>The bus, the trace and the driver's effects\<close>

text \<open>
  The driver in \<^verbatim>\<open>sensors/sensor_vl53l0x.py\<close> talks to one device through a
  register-addressed I2C transport (\<^verbatim>\<open>readfrom_mem\<close>, \<^verbatim>\<open>writeto_mem\<close>) and
  waits with \<^verbatim>\<open>time.sleep_ms\<close>. Every such effect is recorded as an event, in order,
  in a trace. The transport is the most general deterministic one: what a read returns
  is a function of everything that happened before it (the trace), of the device
  address, the register and the byte offset. A read of \<open>n\<close> bytes returns exactly \<open>n\<close>
  bytes. Exceptions of the transport itself are outside the model: the source neither
  raises nor catches them.
\<close>

type_synonym byte = "8 word"

datatype event =
    BusRead nat nat "byte list"
  | BusWrite nat nat "byte list"
  | Sleep nat

type_synonym transport = "event list \<Rightarrow> nat \<Rightarrow> nat \<Rightarrow> nat \<Rightarrow> byte"

datatype error = TimeoutError | ValueError | TypeError | NameError | IndexError

type_synonym 'a io = "event list \<Rightarrow> (error + 'a) \<times> event list"

definition io_return :: "'a \<Rightarrow> 'a io" where
  "io_return x tr = (Inr x, tr)"

definition io_raise :: "error \<Rightarrow> 'a io" where
  "io_raise e tr = (Inl e, tr)"

definition io_bind :: "'a io \<Rightarrow> ('a \<Rightarrow> 'b io) \<Rightarrow> 'b io" where
  "io_bind m f tr =
     (case m tr of
        (Inl e, tr') \<Rightarrow> (Inl e, tr')
      | (Inr x, tr') \<Rightarrow> f x tr')"

definition io_then :: "'a io \<Rightarrow> 'b io \<Rightarrow> 'b io" where
  "io_then m k = io_bind m (\<lambda>_. k)"

definition readfrom_mem :: "transport \<Rightarrow> nat \<Rightarrow> nat \<Rightarrow> nat \<Rightarrow> byte list io" where
  "readfrom_mem bus addr reg n tr =
     (let data = map (bus tr addr reg) [0..<n]
      in (Inr data, tr @ [BusRead addr reg data]))"

definition writeto_mem :: "transport \<Rightarrow> nat \<Rightarrow> nat \<Rightarrow> byte list \<Rightarrow> unit io" where
  "writeto_mem bus addr reg data tr = (Inr (), tr @ [BusWrite addr reg data])"

definition sleep_ms :: "nat \<Rightarrow> unit io" where
  "sleep_ms n tr = (Inr (), tr @ [Sleep n])"

section \<open>The register codec\<close>

text \<open>
  The source packs and unpacks register values with \<^verbatim>\<open>ustruct\<close> and the three formats
  \<^verbatim>\<open>'B'\<close>, \<^verbatim>\<open>'>H'\<close> and \<^verbatim>\<open>'6B'\<close>. A format is a list of unsigned big-endian
  fields. MicroPython's \<^verbatim>\<open>ustruct.pack\<close> does not check the range of a value: it stores
  the low-order bytes of the integer, which is what \<open>word_of_int\<close> of the shifted value
  is. Python integers are unbounded: \<open>int\<close>.
\<close>

datatype struct_fmt = Fmt_B | Fmt_BE_H | Fmt_6B

fun field_sizes :: "struct_fmt \<Rightarrow> nat list" where
  "field_sizes Fmt_B = [1]"
| "field_sizes Fmt_BE_H = [2]"
| "field_sizes Fmt_6B = [1, 1, 1, 1, 1, 1]"

definition calcsize :: "struct_fmt \<Rightarrow> nat" where
  "calcsize fmt = sum_list (field_sizes fmt)"

fun encode_be :: "nat \<Rightarrow> int \<Rightarrow> byte list" where
  "encode_be 0 v = []"
| "encode_be (Suc n) v = word_of_int (drop_bit (8 * n) v) # encode_be n v"

definition decode_be :: "byte list \<Rightarrow> int" where
  "decode_be bs = foldl (\<lambda>a b. a * 256 + uint b) 0 bs"

fun pack_fields :: "nat list \<Rightarrow> int list \<Rightarrow> byte list" where
  "pack_fields (n # ns) (v # vs) = encode_be n v @ pack_fields ns vs"
| "pack_fields _ _ = []"

fun unpack_fields :: "nat list \<Rightarrow> byte list \<Rightarrow> int list" where
  "unpack_fields [] data = []"
| "unpack_fields (n # ns) data = decode_be (take n data) # unpack_fields ns (drop n data)"

definition pack :: "struct_fmt \<Rightarrow> int list \<Rightarrow> byte list" where
  "pack fmt vs = pack_fields (field_sizes fmt) vs"

definition unpack :: "struct_fmt \<Rightarrow> byte list \<Rightarrow> int list" where
  "unpack fmt data = unpack_fields (field_sizes fmt) data"

section \<open>The driver object and its register primitives\<close>

text \<open>
  \<^verbatim>\<open>class VL53L0X\<close>: the transport, the device address, the stop variable captured by
  \<^verbatim>\<open>init\<close> and the continuous-mode flag. A method that assigns an attribute returns
  the updated object.

  \<^verbatim>\<open>_registers\<close> and \<^verbatim>\<open>_register\<close> read when their value argument is \<^verbatim>\<open>None\<close> and
  write otherwise. Every call in the source fixes which: the two branches are the
  functions \<open>registers_read\<close> / \<open>registers_write\<close> and \<open>register_read\<close> /
  \<open>register_write\<close>.
\<close>

record vl53l0x =
  i2c :: transport
  address :: nat
  stop_variable :: int
  started :: bool

definition IO_TIMEOUT :: nat where "IO_TIMEOUT = 1000"
definition SYSRANGE_START :: nat where "SYSRANGE_START = 0x00"
definition EXTSUP_HV :: nat where "EXTSUP_HV = 0x89"
definition MSRC_CONFIG :: nat where "MSRC_CONFIG = 0x60"
definition FINAL_RATE_RTN_LIMIT :: nat where "FINAL_RATE_RTN_LIMIT = 0x44"
definition SYSTEM_SEQUENCE :: nat where "SYSTEM_SEQUENCE = 0x01"
definition SPAD_REF_START :: nat where "SPAD_REF_START = 0x4f"
definition SPAD_ENABLES :: nat where "SPAD_ENABLES = 0xb0"
definition REF_EN_START_SELECT :: nat where "REF_EN_START_SELECT = 0xb6"
definition SPAD_NUM_REQUESTED :: nat where "SPAD_NUM_REQUESTED = 0x4e"
definition INTERRUPT_GPIO :: nat where "INTERRUPT_GPIO = 0x0a"
definition INTERRUPT_CLEAR :: nat where "INTERRUPT_CLEAR = 0x0b"
definition GPIO_MUX_ACTIVE_HIGH :: nat where "GPIO_MUX_ACTIVE_HIGH = 0x84"
definition RESULT_INTERRUPT_STATUS :: nat where "RESULT_INTERRUPT_STATUS = 0x13"
definition RESULT_RANGE_STATUS :: nat where "RESULT_RANGE_STATUS = 0x14"
definition OSC_CALIBRATE :: nat where "OSC_CALIBRATE = 0xf8"
definition MEASURE_PERIOD :: nat where "MEASURE_PERIOD = 0x04"

definition registers_read :: "vl53l0x \<Rightarrow> nat \<Rightarrow> struct_fmt \<Rightarrow> int list io" where
  "registers_read self reg fmt =
     io_bind (readfrom_mem (i2c self) (address self) reg (calcsize fmt))
       (\<lambda>data. io_return (unpack fmt data))"

definition registers_write :: "vl53l0x \<Rightarrow> nat \<Rightarrow> int list \<Rightarrow> struct_fmt \<Rightarrow> unit io" where
  "registers_write self reg vs fmt =
     writeto_mem (i2c self) (address self) reg (pack fmt vs)"

definition register_read :: "vl53l0x \<Rightarrow> nat \<Rightarrow> struct_fmt \<Rightarrow> int io" where
  "register_read self reg fmt =
     io_bind (registers_read self reg fmt)
       (\<lambda>vs. case vs of [] \<Rightarrow> io_raise IndexError | v # _ \<Rightarrow> io_return v)"

definition register_write :: "vl53l0x \<Rightarrow> nat \<Rightarrow> int \<Rightarrow> struct_fmt \<Rightarrow> unit io" where
  "register_write self reg v fmt = registers_write self reg [v] fmt"

text \<open>
  \<^verbatim>\<open>_flag(register, bit, value)\<close>: read the register; with no value, report the bit;
  with a true value set it, with a false value clear it, and write the byte back.
\<close>

definition flag :: "vl53l0x \<Rightarrow> nat \<Rightarrow> nat \<Rightarrow> bool option \<Rightarrow> bool option io" where
  "flag self reg b v =
     io_bind (register_read self reg Fmt_B)
       (\<lambda>data. let mask = push_bit b (1 :: int) in
          (case v of
             None \<Rightarrow> io_return (Some (data AND mask \<noteq> 0))
           | Some True \<Rightarrow>
               io_then (register_write self reg (data OR mask) Fmt_B) (io_return None)
           | Some False \<Rightarrow>
               io_then (register_write self reg (data AND NOT mask) Fmt_B) (io_return None)))"

fun config :: "vl53l0x \<Rightarrow> (nat \<times> int) list \<Rightarrow> unit io" where
  "config self [] = io_return ()"
| "config self ((reg, v) # rest) =
     io_then (register_write self reg v Fmt_B) (config self rest)"

text \<open>
  The four polling loops of the source have one shape:
  \<^verbatim>\<open>for timeout in range(self._IO_TIMEOUT): if <ready>: break; time.sleep_ms(1)\<close>
  with \<^verbatim>\<open>else: raise TimeoutError()\<close>. \<open>poll self reg ready n\<close> is that loop with
  \<open>n\<close> iterations left, reading register \<open>reg\<close> as one byte.
\<close>

primrec poll :: "vl53l0x \<Rightarrow> nat \<Rightarrow> (int \<Rightarrow> bool) \<Rightarrow> nat \<Rightarrow> unit io" where
  "poll self reg ready 0 = io_raise TimeoutError"
| "poll self reg ready (Suc n) =
     io_bind (register_read self reg Fmt_B)
       (\<lambda>v. if ready v then io_return ()
            else io_then (sleep_ms 1) (poll self reg ready n))"

definition spad_info_wait :: "vl53l0x \<Rightarrow> unit io" where
  "spad_info_wait self = poll self 0x83 (\<lambda>v. v \<noteq> 0) IO_TIMEOUT"

definition calibrate_wait :: "vl53l0x \<Rightarrow> unit io" where
  "calibrate_wait self =
     poll self RESULT_INTERRUPT_STATUS (\<lambda>v. v AND 0x07 \<noteq> 0) IO_TIMEOUT"

definition read_wait_start :: "vl53l0x \<Rightarrow> unit io" where
  "read_wait_start self =
     poll self SYSRANGE_START (\<lambda>v. \<not> (v AND 0x01 \<noteq> 0)) IO_TIMEOUT"

definition read_wait_interrupt :: "vl53l0x \<Rightarrow> unit io" where
  "read_wait_interrupt self =
     poll self RESULT_INTERRUPT_STATUS (\<lambda>v. v AND 0x07 \<noteq> 0) IO_TIMEOUT"

section \<open>Initialization\<close>

definition spad_info :: "vl53l0x \<Rightarrow> (int \<times> bool) io" where
  "spad_info self =
     io_then (config self [(0x80, 0x01), (0xff, 0x01), (0x00, 0x00), (0xff, 0x06)])
    (io_then (flag self 0x83 3 (Some True))
    (io_then (config self [(0xff, 0x07), (0x81, 0x01), (0x80, 0x01), (0x94, 0x6b), (0x83, 0x00)])
    (io_then (spad_info_wait self)
    (io_then (config self [(0x83, 0x01)])
    (io_bind (register_read self 0x92 Fmt_B) (\<lambda>v.
     io_then (config self [(0x81, 0x00), (0xff, 0x06)])
    (io_then (flag self 0x83 3 (Some False))
    (io_then (config self [(0xff, 0x01), (0x00, 0x01), (0xff, 0x00), (0x80, 0x00)])
    (io_return (v AND 0x7f, v AND 0x80 \<noteq> 0))))))))))"

definition calibrate :: "vl53l0x \<Rightarrow> int \<Rightarrow> unit io" where
  "calibrate self vhv_init_byte =
     io_then (register_write self SYSRANGE_START (0x01 OR vhv_init_byte) Fmt_B)
    (io_then (calibrate_wait self)
    (io_then (register_write self INTERRUPT_CLEAR 0x01 Fmt_B)
             (register_write self SYSRANGE_START 0x00 Fmt_B)))"

text \<open>
  The reference-SPAD loop of \<^verbatim>\<open>init\<close> (lines 89 to 94). \<^verbatim>\<open>spad_map\<close> is a
  \<^verbatim>\<open>bytearray\<close> of six bytes: reading an element gives its unsigned value, and the
  value stored back, an AND of that value, is again a byte. The state of the loop is
  the map and the counter \<^verbatim>\<open>spads_enabled\<close>; \<^verbatim>\<open>i // 8\<close> is \<open>i div 8\<close> and
  \<^verbatim>\<open>i >> 2\<close> is \<open>drop_bit 2 i\<close>.
\<close>

definition spad_step :: "int \<Rightarrow> bool \<Rightarrow> byte list \<times> int \<Rightarrow> nat \<Rightarrow> byte list \<times> int" where
  "spad_step spad_count is_aperture st i =
     (let spad_map = fst st; spads_enabled = snd st;
          mask = push_bit (drop_bit 2 i) (1 :: int) in
      if i < 12 \<and> is_aperture \<or> spads_enabled \<ge> spad_count then
        (spad_map[i div 8 := word_of_int (uint (spad_map ! (i div 8)) AND NOT mask)],
         spads_enabled)
      else if uint (spad_map ! (i div 8)) AND mask \<noteq> 0 then
        (spad_map, spads_enabled + 1)
      else (spad_map, spads_enabled))"

definition spad_loop :: "int \<Rightarrow> bool \<Rightarrow> byte list \<Rightarrow> byte list \<times> int" where
  "spad_loop spad_count is_aperture spad_map =
     foldl (spad_step spad_count is_aperture) (spad_map, 0) [0..<48]"

definition msrc_limits_disable :: "vl53l0x \<Rightarrow> unit io" where
  "msrc_limits_disable self =
     io_then (flag self MSRC_CONFIG 1 (Some True))
    (io_then (flag self MSRC_CONFIG 4 (Some True)) (io_return ()))"

definition spad_calibration :: "vl53l0x \<Rightarrow> unit io" where
  "spad_calibration self =
     io_bind (spad_info self) (\<lambda>(spad_count, is_aperture).
     io_bind (registers_read self SPAD_ENABLES Fmt_6B) (\<lambda>vs.
     io_then (config self
        [(0xff, 0x01), (SPAD_REF_START, 0x00), (SPAD_NUM_REQUESTED, 0x2c),
         (0xff, 0x00), (REF_EN_START_SELECT, 0xb4)])
       (registers_write self SPAD_ENABLES
          (map uint (fst (spad_loop spad_count is_aperture (map word_of_int vs))))
          Fmt_6B)))"

definition tuning_table :: "(nat \<times> int) list" where
  "tuning_table =
     [(0xff, 0x01), (0x00, 0x00), (0xff, 0x00), (0x09, 0x00),
      (0x10, 0x00), (0x11, 0x00), (0x24, 0x01), (0x25, 0xFF),
      (0x75, 0x00), (0xFF, 0x01), (0x4E, 0x2C), (0x48, 0x00),
      (0x30, 0x20), (0xFF, 0x00), (0x30, 0x09), (0x54, 0x00),
      (0x31, 0x04), (0x32, 0x03), (0x40, 0x83), (0x46, 0x25),
      (0x60, 0x00), (0x27, 0x00), (0x50, 0x06), (0x51, 0x00),
      (0x52, 0x96), (0x56, 0x08), (0x57, 0x30), (0x61, 0x00),
      (0x62, 0x00), (0x64, 0x00), (0x65, 0x00), (0x66, 0xA0),
      (0xFF, 0x01), (0x22, 0x32), (0x47, 0x14), (0x49, 0xFF),
      (0x4A, 0x00), (0xFF, 0x00), (0x7A, 0x0A), (0x7B, 0x00),
      (0x78, 0x21), (0xFF, 0x01), (0x23, 0x34), (0x42, 0x00),
      (0x44, 0xFF), (0x45, 0x26), (0x46, 0x05), (0x40, 0x40),
      (0x0E, 0x06), (0x20, 0x1A), (0x43, 0x40), (0xFF, 0x00),
      (0x34, 0x03), (0x35, 0x44), (0xFF, 0x01), (0x31, 0x04),
      (0x4B, 0x09), (0x4C, 0x05), (0x4D, 0x04), (0xFF, 0x00),
      (0x44, 0x00), (0x45, 0x20), (0x47, 0x08), (0x48, 0x28),
      (0x67, 0x00), (0x70, 0x04), (0x71, 0x01), (0x72, 0xFE),
      (0x76, 0x00), (0x77, 0x00), (0xFF, 0x01), (0x0D, 0x01),
      (0xFF, 0x00), (0x80, 0x01), (0x01, 0xF8), (0xFF, 0x01),
      (0x8E, 0x01), (0x00, 0x01), (0xFF, 0x00), (0x80, 0x00)]"

text \<open>
  \<^verbatim>\<open>init(power2v8)\<close>. The rate limit \<^verbatim>\<open>int(0.25 * (1 << 7))\<close> is 32. The lines
  78 to 79 and 83 to 95 are \<open>msrc_limits_disable\<close> and \<open>spad_calibration\<close> above.
  \<open>init_after_capture\<close> is the body of \<^verbatim>\<open>init\<close> from line 76 on, run on the object
  with \<^verbatim>\<open>_stop_variable\<close> assigned (line 75); \<open>init\<close> returns that object.
\<close>

definition init_after_capture :: "vl53l0x \<Rightarrow> vl53l0x io" where
  "init_after_capture self =
     io_then (config self [(0x00, 0x01), (0xff, 0x00), (0x80, 0x00)])
    (io_then (msrc_limits_disable self)
    (io_then (register_write self FINAL_RATE_RTN_LIMIT 32 Fmt_BE_H)
    (io_then (register_write self SYSTEM_SEQUENCE 0xff Fmt_B)
    (io_then (spad_calibration self)
    (io_then (config self tuning_table)
    (io_then (register_write self INTERRUPT_GPIO 0x04 Fmt_B)
    (io_then (flag self GPIO_MUX_ACTIVE_HIGH 4 (Some False))
    (io_then (register_write self INTERRUPT_CLEAR 0x01 Fmt_B)
    (io_then (register_write self SYSTEM_SEQUENCE 0x01 Fmt_B)
    (io_then (calibrate self 0x40)
    (io_then (register_write self SYSTEM_SEQUENCE 0x02 Fmt_B)
    (io_then (calibrate self 0x00)
    (io_then (register_write self SYSTEM_SEQUENCE 0xe8 Fmt_B)
             (io_return self))))))))))))))"

definition init :: "vl53l0x \<Rightarrow> bool \<Rightarrow> vl53l0x io" where
  "init self power2v8 =
     io_then (flag self EXTSUP_HV 0 (Some power2v8))
    (io_then (config self [(0x88, 0x00), (0x80, 0x01), (0xff, 0x01), (0x00, 0x00)])
    (io_bind (register_read self 0x91 Fmt_B) (\<lambda>sv.
       init_after_capture (self\<lparr>stop_variable := sv\<rparr>))))"

section \<open>Ranging and measurement\<close>

definition start :: "vl53l0x \<Rightarrow> int \<Rightarrow> vl53l0x io" where
  "start self period =
     io_then (config self
        [(0x80, 0x01), (0xFF, 0x01), (0x00, 0x00), (0x91, stop_variable self),
         (0x00, 0x01), (0xFF, 0x00), (0x80, 0x00)])
    (io_then
       (if period \<noteq> 0 then
          io_bind (register_read self OSC_CALIBRATE Fmt_BE_H) (\<lambda>oscilator.
            let period' = (if oscilator \<noteq> 0 then period * oscilator else period) in
            io_then (register_write self MEASURE_PERIOD period' Fmt_BE_H)
                    (register_write self SYSRANGE_START 0x04 Fmt_B))
        else register_write self SYSRANGE_START 0x02 Fmt_B)
       (io_return (self\<lparr>started := True\<rparr>)))"

definition stop :: "vl53l0x \<Rightarrow> vl53l0x io" where
  "stop self =
     io_then (register_write self SYSRANGE_START 0x01 Fmt_B)
    (io_then (config self
        [(0xFF, 0x01), (0x00, 0x00), (0x91, stop_variable self),
         (0x00, 0x01), (0xFF, 0x00)])
       (io_return (self\<lparr>started := False\<rparr>)))"

definition read_preamble :: "vl53l0x \<Rightarrow> (nat \<times> int) list" where
  "read_preamble self =
     [(0x80, 0x01), (0xFF, 0x01), (0x00, 0x00), (0x91, stop_variable self),
      (0x00, 0x01), (0xFF, 0x00), (0x80, 0x00), (SYSRANGE_START, 0x01)]"

definition read :: "vl53l0x \<Rightarrow> int io" where
  "read self =
     io_then (if \<not> started self then config self (read_preamble self) else io_return ())
    (io_then (read_wait_start self)
    (io_then (read_wait_interrupt self)
    (io_bind (register_read self (RESULT_RANGE_STATUS + 10) Fmt_BE_H) (\<lambda>v.
     io_then (register_write self INTERRUPT_CLEAR 0x01 Fmt_B)
             (io_return v)))))"

section \<open>Construction\<close>

text \<open>
  \<^verbatim>\<open>VL53L0X.__init__(i2c, address=0x29)\<close> inspects its argument at run time. The
  module imports \<^verbatim>\<open>micropython, machine, ustruct, time\<close> and never binds the name
  \<^verbatim>\<open>I2C\<close>, so the two branches that call \<^verbatim>\<open>I2C(i2c)\<close> raise NameError. An object
  with a \<^verbatim>\<open>readfrom\<close> attribute is taken as the transport. The attribute
  \<^verbatim>\<open>_stop_variable\<close> does not exist before \<^verbatim>\<open>init\<close> assigns it and nothing reads it
  before; the record starts with 0 there.
\<close>

datatype pyobj =
    PyStr string
  | PyInt int
  | PyMachineI2C transport
  | PyDuckI2C transport
  | PyObject

definition VL53L0X_new :: "pyobj \<Rightarrow> nat \<Rightarrow> vl53l0x io" where
  "VL53L0X_new i2c_arg addr =
     (let construct = (\<lambda>bus.
            io_bind (init \<lparr>i2c = bus, address = addr, stop_variable = 0, started = False\<rparr> True)
              (\<lambda>self. io_return (self\<lparr>started := False\<rparr>)))
      in case i2c_arg of
           PyStr _ \<Rightarrow> io_raise NameError
         | PyInt _ \<Rightarrow> io_raise NameError
         | PyMachineI2C bus \<Rightarrow> construct bus
         | PyDuckI2C bus \<Rightarrow> construct bus
         | PyObject \<Rightarrow> io_raise ValueError)"

text \<open>
  \<^verbatim>\<open>Sensor_VL53L0X.__init__(*args, **kwargs)\<close> has no parameter called \<^verbatim>\<open>i2c\<close>: the
  name in its \<^verbatim>\<open>isinstance\<close> test is looked up in the module's global namespace,
  modelled as a map from names to objects (the script part of the file binds it;
  an importing module does not). The arguments are what the call passes on to
  \<^verbatim>\<open>VL53L0X.__init__\<close>: the transport, if given, and the address, if given.
\<close>

record ctor_args =
  arg_i2c :: "pyobj option"
  arg_address :: "nat option"

record sensor_vl53l0x =
  driver :: vl53l0x
  sensor_value :: "int option"

fun is_machine_I2C :: "pyobj \<Rightarrow> bool" where
  "is_machine_I2C (PyMachineI2C _) = True"
| "is_machine_I2C _ = False"

definition VL53L0X_call :: "ctor_args \<Rightarrow> vl53l0x io" where
  "VL53L0X_call args =
     (case arg_i2c args of
        None \<Rightarrow> io_raise TypeError
      | Some obj \<Rightarrow>
          VL53L0X_new obj (case arg_address args of None \<Rightarrow> 0x29 | Some a \<Rightarrow> a))"

definition Sensor_VL53L0X_new :: "(string \<rightharpoonup> pyobj) \<Rightarrow> ctor_args \<Rightarrow> sensor_vl53l0x io" where
  "Sensor_VL53L0X_new globals args =
     (case globals ''i2c'' of
        None \<Rightarrow> io_raise NameError
      | Some g \<Rightarrow>
          if \<not> is_machine_I2C g then io_raise TypeError
          else io_bind (VL53L0X_call args)
                 (\<lambda>self. io_return \<lparr>driver = self, sensor_value = None\<rparr>))"

section \<open>Notions used to state the properties\<close>

text \<open>
  \<open>writes self cfg\<close> are the events of writing the (register, value) pairs of \<open>cfg\<close>,
  one byte each, in order. \<open>busy_trace self reg tr k\<close> is the trace \<open>tr\<close> extended by
  \<open>k\<close> polls of register \<open>reg\<close>, each followed by the one-millisecond sleep of an
  unsuccessful iteration; \<open>poll_reply self reg tr k\<close> is the byte the transport answers
  to the poll that follows \<open>k\<close> unsuccessful ones.
\<close>

definition writes :: "vl53l0x \<Rightarrow> (nat \<times> int) list \<Rightarrow> event list" where
  "writes self cfg = map (\<lambda>(reg, v). BusWrite (address self) reg [word_of_int v]) cfg"

primrec busy_trace :: "vl53l0x \<Rightarrow> nat \<Rightarrow> event list \<Rightarrow> nat \<Rightarrow> event list" where
  "busy_trace self reg tr 0 = tr"
| "busy_trace self reg tr (Suc k) =
     (let h = busy_trace self reg tr k
      in h @ [BusRead (address self) reg [i2c self h (address self) reg 0], Sleep 1])"

definition poll_reply :: "vl53l0x \<Rightarrow> nat \<Rightarrow> event list \<Rightarrow> nat \<Rightarrow> byte" where
  "poll_reply self reg tr k = i2c self (busy_trace self reg tr k) (address self) reg 0"

text \<open>
  A transport that behaves as a plain register file: a read returns the bytes last
  written to that register of that device, and 0 where nothing was written.
\<close>

fun last_write :: "event list \<Rightarrow> nat \<Rightarrow> nat \<Rightarrow> byte list option" where
  "last_write [] a r = None"
| "last_write (e # es) a r =
     (case last_write es a r of
        Some d \<Rightarrow> Some d
      | None \<Rightarrow>
          (case e of
             BusWrite a' r' d \<Rightarrow> if a' = a \<and> r' = r then Some d else None
           | _ \<Rightarrow> None))"

definition register_file :: transport where
  "register_file tr a r k =
     (case last_write tr a r of
        Some d \<Rightarrow> if k < length d then d ! k else 0
      | None \<Rightarrow> 0)"

text \<open>
  The number of bits set in a byte and in a SPAD map: the number of enabled elements.
\<close>

definition bits_set :: "byte \<Rightarrow> nat" where
  "bits_set b = length (filter (bit b) [0..<8])"

definition enabled_count :: "byte list \<Rightarrow> nat" where
  "enabled_count m = sum_list (map bits_set m)"

text \<open>
  A transport whose registers never change: a read returns \<open>regs r k\<close> whatever
  happened before. Two such devices answer every poll at once and hold an all-ones
  SPAD map; the first reports 12 non-aperture reference SPADs in register 0x92, the
  second 5 aperture ones.
\<close>

definition stateless :: "(nat \<Rightarrow> nat \<Rightarrow> byte) \<Rightarrow> transport" where
  "stateless regs tr a r k = regs r k"

definition spad12_regs :: "nat \<Rightarrow> nat \<Rightarrow> byte" where
  "spad12_regs r k = (if r = 0x92 then 0x0C else 0xFF)"

definition spad5a_regs :: "nat \<Rightarrow> nat \<Rightarrow> byte" where
  "spad5a_regs r k = (if r = 0x92 then 0x85 else 0xFF)"

text \<open>
  \<open>bounded_wait n self reg ready m\<close>: from every trace, the action \<open>m\<close> polls register
  \<open>reg\<close> at most \<open>n\<close> times, each poll reading one byte. Every poll that finds the
  device not ready is followed by a sleep of one millisecond. After \<open>n\<close> such polls
  \<open>m\<close> raises TimeoutError; otherwise it returns at the first poll that finds the
  device ready, and nothing else happens in between.
\<close>

definition bounded_wait ::
  "nat \<Rightarrow> vl53l0x \<Rightarrow> nat \<Rightarrow> (int \<Rightarrow> bool) \<Rightarrow> unit io \<Rightarrow> bool" where
  "bounded_wait n self reg ready m =
     (\<forall>tr. \<exists>ds. length ds \<le> n \<and> list_all (\<lambda>d. \<not> ready (uint d)) ds \<and>
        (let waited = tr @ concat (map (\<lambda>d. [BusRead (address self) reg [d], Sleep 1]) ds) in
         (length ds = n \<and> m tr = (Inl TimeoutError, waited)) \<or>
         (length ds < n \<and>
            (\<exists>d. ready (uint d) \<and> m tr = (Inr (), waited @ [BusRead (address self) reg [d]])))))"

text \<open>
  A device whose oscillator-calibration register 0xF8 reads 0x0400 and whose other
  registers read 0.
\<close>

definition osc_regs :: "nat \<Rightarrow> nat \<Rightarrow> byte" where
  "osc_regs r k = (if r = 0xf8 \<and> k = 0 then 0x04 else 0x00)"

text \<open>
  \<open>emits P m\<close>: from every trace, the action \<open>m\<close> only appends events to the trace, and
  every event it appends satisfies \<open>P\<close>, whether \<open>m\<close> returns or raises.
\<close>

definition emits :: "(event \<Rightarrow> bool) \<Rightarrow> 'a io \<Rightarrow> bool" where
  "emits P m = (\<forall>tr. \<exists>evs. snd (m tr) = tr @ evs \<and> list_all P evs)"

text \<open>
  A device whose range-start register 0x00 always reads 0x01 (bit 0 never clears) and
  whose other registers read 0.
\<close>

definition busy_regs :: "nat \<Rightarrow> nat \<Rightarrow> byte" where
  "busy_regs r k = (if r = 0x00 then 0x01 else 0x00)"

text \<open>
  \<open>restores b e\<close>: if the event \<open>e\<close> is a write to register 0x91, it writes exactly the
  byte \<open>b\<close>. A client's later use of the driver is a list of calls of \<^verbatim>\<open>start\<close>,
  \<^verbatim>\<open>stop\<close> and \<^verbatim>\<open>read\<close>, each on the object the previous one left; it ends at the
  first exception.
\<close>

fun restores :: "byte \<Rightarrow> event \<Rightarrow> bool" where
  "restores b (BusWrite a r d) = (r = 0x91 \<longrightarrow> d = [b])"
| "restores b (BusRead a r d) = True"
| "restores b (Sleep n) = True"

datatype call = CallStart int | CallStop | CallRead

fun run_call :: "vl53l0x \<Rightarrow> call \<Rightarrow> vl53l0x io" where
  "run_call self (CallStart period) = start self period"
| "run_call self CallStop = stop self"
| "run_call self CallRead = io_bind (read self) (\<lambda>_. io_return self)"

fun run_calls :: "vl53l0x \<Rightarrow> call list \<Rightarrow> vl53l0x io" where
  "run_calls self [] = io_return self"
| "run_calls self (c # cs) = io_bind (run_call self c) (\<lambda>self'. run_calls self' cs)"

text \<open>
  The object as \<^verbatim>\<open>VL53L0X.__init__\<close> hands it to \<^verbatim>\<open>init\<close>, at the default address.
\<close>

definition fresh_driver :: "transport \<Rightarrow> vl53l0x" where
  "fresh_driver bus = \<lparr>i2c = bus, address = 0x29, stop_variable = 0, started = False\<rparr>"

section \<open>Basic facts about the primitives\<close>

lemma io_bind_apply:
  "io_bind m f tr = (case m tr of (Inl e, tr') \<Rightarrow> (Inl e, tr') | (Inr x, tr') \<Rightarrow> f x tr')"
  by (simp add: io_bind_def)

lemma io_bind_Inr: "m tr = (Inr x, tr') \<Longrightarrow> io_bind m f tr = f x tr'"
  by (simp add: io_bind_def)

lemma io_bind_Inl: "m tr = (Inl e, tr') \<Longrightarrow> io_bind m f tr = (Inl e, tr')"
  by (simp add: io_bind_def)

lemma io_then_Inr: "m tr = (Inr x, tr') \<Longrightarrow> io_then m k tr = k tr'"
  by (simp add: io_then_def io_bind_def)

lemma io_then_Inl: "m tr = (Inl e, tr') \<Longrightarrow> io_then m k tr = (Inl e, tr')"
  by (simp add: io_then_def io_bind_def)

lemma register_write_B:
  "register_write self reg v Fmt_B tr =
     (Inr (), tr @ [BusWrite (address self) reg [word_of_int v]])"
  by (simp add: register_write_def registers_write_def writeto_mem_def pack_def)

lemma register_write_BE_H:
  "register_write self reg v Fmt_BE_H tr =
     (Inr (), tr @ [BusWrite (address self) reg [word_of_int (drop_bit 8 v), word_of_int v]])"
  by (simp add: register_write_def registers_write_def writeto_mem_def pack_def numeral_2_eq_2)

lemma register_read_B:
  "register_read self reg Fmt_B tr =
     (Inr (uint (i2c self tr (address self) reg 0)),
      tr @ [BusRead (address self) reg [i2c self tr (address self) reg 0]])"
  by (simp add: register_read_def registers_read_def readfrom_mem_def unpack_def calcsize_def
      decode_be_def io_bind_def io_return_def Let_def)

lemma register_read_BE_H:
  "register_read self reg Fmt_BE_H tr =
     (Inr (uint (i2c self tr (address self) reg 0) * 256 + uint (i2c self tr (address self) reg 1)),
      tr @ [BusRead (address self) reg
              [i2c self tr (address self) reg 0, i2c self tr (address self) reg 1]])"
  by (simp add: register_read_def registers_read_def readfrom_mem_def unpack_def calcsize_def
      decode_be_def io_bind_def io_return_def upt_rec numeral_2_eq_2 Let_def)

lemma config_apply: "config self cfg tr = (Inr (), tr @ writes self cfg)"
  by (induction cfg arbitrary: tr)
     (auto simp: writes_def io_return_def io_then_Inr [OF register_write_B])

lemma byte_or: "word_of_int (uint (d :: byte) OR k) = d OR word_of_int k"
  by (simp flip: word_wi_log_defs)

lemma byte_and_not: "word_of_int (uint (d :: byte) AND NOT k) = d AND NOT (word_of_int k)"
  by (simp flip: word_wi_log_defs)

lemma flag_set:
  "flag self reg b (Some True) tr =
     (let d = i2c self tr (address self) reg 0 in
      (Inr None, tr @ [BusRead (address self) reg [d],
                       BusWrite (address self) reg [d OR push_bit b 1]]))"
  by (simp add: flag_def io_bind_Inr [OF register_read_B] io_then_Inr [OF register_write_B]
      io_return_def Let_def byte_or)

lemma flag_clear:
  "flag self reg b (Some False) tr =
     (let d = i2c self tr (address self) reg 0 in
      (Inr None, tr @ [BusRead (address self) reg [d],
                       BusWrite (address self) reg [d AND NOT (push_bit b 1)]]))"
  by (simp add: flag_def io_bind_Inr [OF register_read_B] io_then_Inr [OF register_write_B]
      io_return_def Let_def byte_and_not)

lemma busy_trace_shift:
  "busy_trace self reg (busy_trace self reg tr (Suc 0)) k = busy_trace self reg tr (Suc k)"
  by (induction k) (simp_all add: Let_def)

lemma poll_reply_shift:
  "poll_reply self reg (busy_trace self reg tr (Suc 0)) k = poll_reply self reg tr (Suc k)"
  unfolding poll_reply_def busy_trace_shift ..

lemma poll_step:
  "poll self reg ready (Suc n) tr =
     (if ready (uint (poll_reply self reg tr 0))
      then (Inr (), tr @ [BusRead (address self) reg [poll_reply self reg tr 0]])
      else poll self reg ready n (busy_trace self reg tr (Suc 0)))"
  by (simp add: io_bind_Inr [OF register_read_B] poll_reply_def io_return_def
      io_then_def io_bind_def sleep_ms_def Let_def)

lemma poll_timeout:
  "(\<And>k. k < n \<Longrightarrow> \<not> ready (uint (poll_reply self reg tr k))) \<Longrightarrow>
   poll self reg ready n tr = (Inl TimeoutError, busy_trace self reg tr n)"
proof (induction n arbitrary: tr)
  case 0
  show ?case by (simp add: io_raise_def)
next
  case (Suc n)
  have first: "\<not> ready (uint (poll_reply self reg tr 0))"
    using Suc.prems [of 0] by simp
  have rest: "\<not> ready (uint (poll_reply self reg (busy_trace self reg tr (Suc 0)) k))"
    if "k < n" for k
  proof -
    from that have "Suc k < Suc n" by simp
    from Suc.prems [OF this] show ?thesis unfolding poll_reply_shift .
  qed
  have "poll self reg ready n (busy_trace self reg tr (Suc 0)) =
          (Inl TimeoutError, busy_trace self reg (busy_trace self reg tr (Suc 0)) n)"
    by (rule Suc.IH) (rule rest)
  then show ?case
    unfolding poll_step busy_trace_shift using first by simp
qed

lemma poll_ready:
  "k < n \<Longrightarrow> (\<And>j. j < k \<Longrightarrow> \<not> ready (uint (poll_reply self reg tr j))) \<Longrightarrow>
   ready (uint (poll_reply self reg tr k)) \<Longrightarrow>
   poll self reg ready n tr =
     (Inr (), busy_trace self reg tr k @ [BusRead (address self) reg [poll_reply self reg tr k]])"
proof (induction n arbitrary: tr k)
  case 0
  then show ?case by simp
next
  case (Suc n)
  show ?case
  proof (cases k)
    case 0
    with Suc.prems show ?thesis unfolding poll_step by simp
  next
    case (Suc k')
    have first: "\<not> ready (uint (poll_reply self reg tr 0))"
      using Suc.prems(2) [of 0] Suc by simp
    have rest: "\<not> ready (uint (poll_reply self reg (busy_trace self reg tr (Suc 0)) j))"
      if "j < k'" for j
    proof -
      from that Suc have "Suc j < k" by simp
      from Suc.prems(2) [OF this] show ?thesis unfolding poll_reply_shift .
    qed
    have here: "ready (uint (poll_reply self reg (busy_trace self reg tr (Suc 0)) k'))"
      using Suc.prems(3) unfolding Suc poll_reply_shift .
    have "k' < n" using Suc.prems(1) Suc by simp
    from Suc.IH [OF this rest here]
    show ?thesis
      unfolding poll_step busy_trace_shift poll_reply_shift Suc using first by simp
  qed
qed

lemma busy_trace_replies:
  "busy_trace self reg tr k =
     tr @ concat (map (\<lambda>d. [BusRead (address self) reg [d], Sleep 1])
                    (map (poll_reply self reg tr) [0..<k]))"
  by (induction k) (simp_all add: Let_def poll_reply_def)

lemma poll_outcome:
  "(\<exists>k<n. (\<forall>j<k. \<not> ready (uint (poll_reply self reg tr j))) \<and>
           ready (uint (poll_reply self reg tr k)) \<and>
           poll self reg ready n tr =
             (Inr (), busy_trace self reg tr k @
                      [BusRead (address self) reg [poll_reply self reg tr k]]))
   \<or> ((\<forall>j<n. \<not> ready (uint (poll_reply self reg tr j))) \<and>
       poll self reg ready n tr = (Inl TimeoutError, busy_trace self reg tr n))"
proof (cases "\<exists>k<n. ready (uint (poll_reply self reg tr k))")
  case True
  define k where "k = (LEAST k. k < n \<and> ready (uint (poll_reply self reg tr k)))"
  from True have "\<exists>k. k < n \<and> ready (uint (poll_reply self reg tr k))" by blast
  then have k: "k < n \<and> ready (uint (poll_reply self reg tr k))"
    unfolding k_def by (rule LeastI_ex)
  have least: "\<not> ready (uint (poll_reply self reg tr j))" if "j < k" for j
  proof
    assume "ready (uint (poll_reply self reg tr j))"
    with that k have "j < n \<and> ready (uint (poll_reply self reg tr j))" by simp
    then have "k \<le> j" unfolding k_def by (rule Least_le)
    with that show False by simp
  qed
  from poll_ready [of k n ready self reg tr, OF _ least] k least
  show ?thesis by blast
next
  case False
  then have none: "\<forall>j<n. \<not> ready (uint (poll_reply self reg tr j))" by blast
  then have "poll self reg ready n tr = (Inl TimeoutError, busy_trace self reg tr n)"
    by (intro poll_timeout) blast
  with none show ?thesis by blast
qed

lemma poll_bounded_wait: "bounded_wait n self reg ready (poll self reg ready n)"
  unfolding bounded_wait_def Let_def
proof
  fix tr
  let ?ev = "\<lambda>d. [BusRead (address self) reg [d], Sleep 1]"
  let ?replies = "\<lambda>k. map (poll_reply self reg tr) [0..<k]"
  have len: "length (?replies k) = k" for k by simp
  have busy: "list_all (\<lambda>d. \<not> ready (uint d)) (?replies k)"
    if "\<forall>j<k. \<not> ready (uint (poll_reply self reg tr j))" for k
    using that by (simp add: list_all_iff)
  have waited: "tr @ concat (map ?ev (?replies k)) = busy_trace self reg tr k" for k
    by (simp only: busy_trace_replies)
  let ?goal = "\<lambda>ds. length ds \<le> n \<and> list_all (\<lambda>d. \<not> ready (uint d)) ds \<and>
        ((length ds = n \<and>
          poll self reg ready n tr = (Inl TimeoutError, tr @ concat (map ?ev ds))) \<or>
         (length ds < n \<and>
            (\<exists>d. ready (uint d) \<and>
               poll self reg ready n tr =
                 (Inr (), (tr @ concat (map ?ev ds)) @ [BusRead (address self) reg [d]]))))"
  from poll_outcome [of n ready self reg tr]
  show "\<exists>ds. ?goal ds"
  proof
    assume "\<exists>k<n. (\<forall>j<k. \<not> ready (uint (poll_reply self reg tr j))) \<and>
           ready (uint (poll_reply self reg tr k)) \<and>
           poll self reg ready n tr =
             (Inr (), busy_trace self reg tr k @
                      [BusRead (address self) reg [poll_reply self reg tr k]])"
    then obtain k where k: "k < n" "\<forall>j<k. \<not> ready (uint (poll_reply self reg tr j))"
      "ready (uint (poll_reply self reg tr k))"
      "poll self reg ready n tr =
             (Inr (), busy_trace self reg tr k @
                      [BusRead (address self) reg [poll_reply self reg tr k]])"
      by blast
    have "?goal (?replies k)"
    proof (intro conjI)
      show "length (?replies k) \<le> n" unfolding len using k(1) by (rule less_imp_le)
      show "list_all (\<lambda>d. \<not> ready (uint d)) (?replies k)" by (rule busy [OF k(2)])
      show "(length (?replies k) = n \<and>
          poll self reg ready n tr = (Inl TimeoutError, tr @ concat (map ?ev (?replies k)))) \<or>
         (length (?replies k) < n \<and>
            (\<exists>d. ready (uint d) \<and>
               poll self reg ready n tr =
                 (Inr (), (tr @ concat (map ?ev (?replies k))) @
                          [BusRead (address self) reg [d]])))"
      proof (rule disjI2, intro conjI exI)
        show "length (?replies k) < n" unfolding len by (rule k(1))
        show "ready (uint (poll_reply self reg tr k))" by (rule k(3))
        show "poll self reg ready n tr =
                 (Inr (), (tr @ concat (map ?ev (?replies k))) @
                          [BusRead (address self) reg [poll_reply self reg tr k]])"
          unfolding waited by (rule k(4))
      qed
    qed
    then show ?thesis by (rule exI [of ?goal "?replies k"])
  next
    assume a: "(\<forall>j<n. \<not> ready (uint (poll_reply self reg tr j))) \<and>
       poll self reg ready n tr = (Inl TimeoutError, busy_trace self reg tr n)"
    have "?goal (?replies n)"
    proof (intro conjI)
      show "length (?replies n) \<le> n" unfolding len by (rule order_refl)
      show "list_all (\<lambda>d. \<not> ready (uint d)) (?replies n)"
        using a by (intro busy) blast
      show "(length (?replies n) = n \<and>
          poll self reg ready n tr = (Inl TimeoutError, tr @ concat (map ?ev (?replies n)))) \<or>
         (length (?replies n) < n \<and>
            (\<exists>d. ready (uint d) \<and>
               poll self reg ready n tr =
                 (Inr (), (tr @ concat (map ?ev (?replies n))) @
                          [BusRead (address self) reg [d]])))"
      proof (rule disjI1, intro conjI)
        show "length (?replies n) = n" by (rule len)
        show "poll self reg ready n tr =
                (Inl TimeoutError, tr @ concat (map ?ev (?replies n)))"
          unfolding waited using a by blast
      qed
    qed
    then show ?thesis by (rule exI [of ?goal "?replies n"])
  qed
qed

declare config.simps [simp del]

lemma io_then_apply:
  "io_then m k tr = (case m tr of (Inl e, tr') \<Rightarrow> (Inl e, tr') | (Inr x, tr') \<Rightarrow> k tr')"
  by (simp add: io_then_def io_bind_def)

lemmas io_eval = io_bind_apply io_then_apply io_return_def io_raise_def
  register_write_B register_write_BE_H register_read_B register_read_BE_H
  config_apply flag_set flag_clear

lemma poll_first_ready:
  "0 < n \<Longrightarrow> ready (uint (i2c self tr (address self) reg 0)) \<Longrightarrow>
   poll self reg ready n tr =
     (Inr (), tr @ [BusRead (address self) reg [i2c self tr (address self) reg 0]])"
  using poll_ready [of 0 n ready self reg tr] by (simp add: poll_reply_def)

section \<open>Facts about the reference-SPAD loop\<close>

lemma high_mask: "32 \<le> i \<Longrightarrow> (2 :: int) ^ 8 \<le> push_bit (drop_bit 2 i) 1"
proof -
  assume "32 \<le> i"
  then have "8 \<le> drop_bit 2 i" by (simp add: drop_bit_eq_div)
  then have "(2 :: int) ^ 8 \<le> 2 ^ drop_bit 2 i"
    by (intro power_increasing) simp_all
  then show ?thesis by (simp add: push_bit_eq_mult)
qed

lemma byte_and_high: "8 \<le> k \<Longrightarrow> uint (x :: byte) AND 2 ^ k = 0"
  by (rule bit_eqI) (auto simp: bit_and_iff bit_exp_iff bit_uint_iff)

lemma byte_clear_high: "8 \<le> k \<Longrightarrow> word_of_int (uint (x :: byte) AND NOT (2 ^ k)) = x"
  by (rule bit_word_eqI)
     (auto simp: bit_and_iff bit_not_iff bit_exp_iff bit_uint_iff bit_word_of_int_iff)

lemma spad_step_high: "32 \<le> i \<Longrightarrow> spad_step c ap st i = st"
proof -
  assume "32 \<le> i"
  then have k: "8 \<le> drop_bit 2 i" by (simp add: drop_bit_eq_div)
  show ?thesis
    by (simp add: spad_step_def Let_def byte_and_high [OF k] byte_clear_high [OF k])
qed

lemma foldl_spad_step_high:
  "\<forall>i \<in> set is. 32 \<le> i \<Longrightarrow> foldl (spad_step c ap) st is = st"
  by (induction "is" arbitrary: st) (simp_all add: spad_step_high)

lemma spad_loop_low: "spad_loop c ap m = foldl (spad_step c ap) (m, 0) [0..<32]"
proof -
  have "[0..<48] = [0..<32] @ [32..<48]"
    using upt_add_eq_append [of 0 32 16] by simp
  then have "spad_loop c ap m =
      foldl (spad_step c ap) (foldl (spad_step c ap) (m, 0) [0..<32]) [32..<48]"
    by (simp only: spad_loop_def foldl_append)
  also have "\<dots> = foldl (spad_step c ap) (m, 0) [0..<32]"
    by (rule foldl_spad_step_high) simp
  finally show ?thesis .
qed

lemma spad_step_drop4: "i < 32 \<Longrightarrow> drop 4 (fst (spad_step c ap st i)) = drop 4 (fst st)"
  by (simp add: spad_step_def Let_def)

lemma foldl_spad_step_drop4:
  "\<forall>i \<in> set is. i < 32 \<Longrightarrow> drop 4 (fst (foldl (spad_step c ap) st is)) = drop 4 (fst st)"
  by (induction "is" arbitrary: st) (simp_all add: spad_step_drop4)

lemma spad_loop_drop4: "drop 4 (fst (spad_loop c ap m)) = drop 4 m"
  by (simp add: spad_loop_low foldl_spad_step_drop4)

lemma spad_step_length: "length (fst (spad_step c ap st i)) = length (fst st)"
  by (simp add: spad_step_def Let_def)

lemma foldl_spad_step_length:
  "length (fst (foldl (spad_step c ap) st is)) = length (fst st)"
  by (induction "is" arbitrary: st) (simp_all add: spad_step_length)

lemma spad_loop_length: "length (fst (spad_loop c ap m)) = length m"
  by (simp add: spad_loop_def foldl_spad_step_length)

lemma length6: "length (m :: 'a list) = 6 \<Longrightarrow> \<exists>a b c d e f. m = [a, b, c, d, e, f]"
  by (auto simp: numeral_eq_Suc length_Suc_conv)

lemma pack_6B_bytes: "length (m :: byte list) = 6 \<Longrightarrow> pack Fmt_6B (map uint m) = m"
  by (drule length6) (auto simp: pack_def)

lemma registers_read_6B:
  "registers_read self reg Fmt_6B tr =
     (Inr (map uint (map (i2c self tr (address self) reg) [0..<6])),
      tr @ [BusRead (address self) reg (map (i2c self tr (address self) reg) [0..<6])])"
  by (simp add: registers_read_def readfrom_mem_def unpack_def calcsize_def
      decode_be_def io_bind_def io_return_def Let_def upt_rec numeral_eq_Suc)

lemma spad_calibration_apply:
  assumes "spad_info self tr = (Inr (c, ap), tr1)"
  shows "spad_calibration self tr =
     (Inr (),
      tr1 @ [BusRead (address self) SPAD_ENABLES
               (map (i2c self tr1 (address self) SPAD_ENABLES) [0..<6])]
          @ writes self
              [(0xff, 0x01), (SPAD_REF_START, 0x00), (SPAD_NUM_REQUESTED, 0x2c),
               (0xff, 0x00), (REF_EN_START_SELECT, 0xb4)]
          @ [BusWrite (address self) SPAD_ENABLES
               (fst (spad_loop c ap
                  (map (i2c self tr1 (address self) SPAD_ENABLES) [0..<6])))])"
  unfolding spad_calibration_def
  by (simp add: io_eval assms registers_read_6B
      registers_write_def writeto_mem_def pack_6B_bytes spad_loop_length o_def)

lemma spad_info_spad12:
  "\<exists>tr1. spad_info (fresh_driver (stateless spad12_regs)) [] = (Inr (12, False), tr1)"
  by (simp add: spad_info_def spad_info_wait_def IO_TIMEOUT_def io_eval poll_first_ready
      fresh_driver_def stateless_def spad12_regs_def Let_def)

lemma spad_info_spad5a:
  "\<exists>tr1. spad_info (fresh_driver (stateless spad5a_regs)) [] = (Inr (5, True), tr1)"
  by (simp add: spad_info_def spad_info_wait_def IO_TIMEOUT_def io_eval poll_first_ready
      fresh_driver_def stateless_def spad5a_regs_def Let_def)

lemma spad_loop_12:
  "spad_loop 12 False [0xFF, 0xFF, 0xFF, 0xFF, 0xFF, 0xFF] =
     ([0xFF, 0xF7, 0xCF, 0x3F, 0xFF, 0xFF], 12)"
  by code_simp

lemma spad_loop_5a:
  "spad_loop 5 True [0xFF, 0xFF, 0xFF, 0xFF, 0xFF, 0xFF] =
     ([0xFC, 0xFB, 0xCF, 0x3F, 0xFF, 0xFF], 5)"
  by code_simp

lemma enabled_43: "enabled_count [0xFF, 0xF7, 0xCF, 0x3F, 0xFF, 0xFF] = 43"
  by code_simp

lemma enabled_41: "enabled_count [0xFC, 0xFB, 0xCF, 0x3F, 0xFF, 0xFF] = 41"
  by code_simp

lemma all_ones_map:
  "map (stateless spad12_regs tr a 0xb0) [0..<6] = [0xFF, 0xFF, 0xFF, 0xFF, 0xFF, 0xFF]"
  "map (stateless spad5a_regs tr a 0xb0) [0..<6] = [0xFF, 0xFF, 0xFF, 0xFF, 0xFF, 0xFF]"
  by (simp_all add: stateless_def spad12_regs_def spad5a_regs_def upt_rec numeral_eq_Suc)

section \<open>Facts about the events an action appends\<close>

lemma emitsI: "(\<And>tr. \<exists>evs. snd (m tr) = tr @ evs \<and> list_all P evs) \<Longrightarrow> emits P m"
  by (simp add: emits_def)

lemma emitsD: "emits P m \<Longrightarrow> \<exists>evs. snd (m tr) = tr @ evs \<and> list_all P evs"
  by (simp add: emits_def)

lemma emits_return: "emits P (io_return x)"
  by (simp add: emits_def io_return_def)

lemma emits_raise: "emits P (io_raise e)"
  by (simp add: emits_def io_raise_def)

lemma emits_bind_result:
  assumes m: "emits P m"
    and f: "\<And>x tr tr'. m tr = (Inr x, tr') \<Longrightarrow> emits P (f x)"
  shows "emits P (io_bind m f)"
proof (rule emitsI)
  fix tr
  obtain r tr' where mtr: "m tr = (r, tr')" by (cases "m tr")
  from emitsD [OF m, of tr] mtr obtain evs where evs: "tr' = tr @ evs" "list_all P evs"
    by auto
  show "\<exists>evs. snd (io_bind m f tr) = tr @ evs \<and> list_all P evs"
  proof (cases r)
    case (Inl e)
    with mtr evs show ?thesis by (auto simp: io_bind_def)
  next
    case (Inr x)
    from emitsD [OF f, of tr x tr' tr'] mtr Inr
    obtain evs' where evs': "snd (f x tr') = tr' @ evs'" "list_all P evs'"
      by auto
    have "snd (io_bind m f tr) = tr @ (evs @ evs') \<and> list_all P (evs @ evs')"
      using mtr Inr evs evs' by (simp add: io_bind_def)
    then show ?thesis by (rule exI [of _ "evs @ evs'"])
  qed
qed

lemma emits_bind: "emits P m \<Longrightarrow> (\<And>x. emits P (f x)) \<Longrightarrow> emits P (io_bind m f)"
  by (rule emits_bind_result)

lemma emits_then: "emits P m \<Longrightarrow> emits P k \<Longrightarrow> emits P (io_then m k)"
  unfolding io_then_def by (rule emits_bind)

lemma emits_if: "emits P m \<Longrightarrow> emits P k \<Longrightarrow> emits P (if c then m else k)"
  by simp

lemma emits_register_write:
  "P (BusWrite (address self) reg (pack fmt [v])) \<Longrightarrow> emits P (register_write self reg v fmt)"
  by (simp add: emits_def register_write_def registers_write_def writeto_mem_def)

lemma emits_register_read:
  "(\<And>d. P (BusRead (address self) reg d)) \<Longrightarrow> emits P (register_read self reg fmt)"
  by (auto simp: emits_def register_read_def registers_read_def readfrom_mem_def Let_def
      io_bind_def io_return_def io_raise_def split: list.splits)

lemma emits_sleep: "P (Sleep n) \<Longrightarrow> emits P (sleep_ms n)"
  by (simp add: emits_def sleep_ms_def)

lemma emits_config:
  "(\<And>reg v. (reg, v) \<in> set cfg \<Longrightarrow> P (BusWrite (address self) reg [word_of_int v])) \<Longrightarrow>
   emits P (config self cfg)"
  by (auto simp: emits_def config_apply writes_def list_all_iff)

lemma emits_poll:
  "(\<And>d. P (BusRead (address self) reg d)) \<Longrightarrow> P (Sleep 1) \<Longrightarrow>
   emits P (poll self reg ready n)"
proof (induction n)
  case 0
  show ?case by (simp add: emits_raise)
next
  case (Suc n)
  show ?case
    unfolding poll.simps
    by (intro emits_bind emits_register_read emits_if emits_return emits_then emits_sleep
        Suc.IH Suc.prems)
qed

lemma emits_flag:
  "(\<And>d. P (BusRead (address self) reg d)) \<Longrightarrow> (\<And>d. P (BusWrite (address self) reg d)) \<Longrightarrow>
   emits P (flag self reg b v)"
  unfolding flag_def Let_def
  by (intro emits_bind emits_register_read)
     (auto split: option.splits bool.splits
       intro!: emits_return emits_then emits_register_write)

lemma bit0_test: "(uint (d :: byte) AND 1 \<noteq> 0) = bit d 0"
proof -
  have "(uint d AND 1 \<noteq> 0) = bit (uint d) 0"
    by (simp add: and_one_eq bit_0 flip: even_iff_mod_2_eq_zero)
  then show ?thesis by (simp add: bit_uint_iff)
qed

lemma poll_head:
  "\<exists>rest. snd (poll self reg ready (Suc n) tr) =
      tr @ BusRead (address self) reg [i2c self tr (address self) reg 0] # rest"
proof (cases "ready (uint (poll_reply self reg tr 0))")
  case True
  then show ?thesis by (simp only: poll_step) (simp add: poll_reply_def)
next
  case False
  have "emits (\<lambda>_. True) (poll self reg ready n)"
    by (rule emits_poll) simp_all
  from emitsD [OF this, of "busy_trace self reg tr (Suc 0)"]
  obtain evs where "snd (poll self reg ready n (busy_trace self reg tr (Suc 0))) =
      busy_trace self reg tr (Suc 0) @ evs" by blast
  with False show ?thesis by (simp only: poll_step) (simp add: Let_def)
qed

lemma read_tail_emits:
  "emits (\<lambda>_. True)
     (io_then (read_wait_interrupt self)
       (io_bind (register_read self (RESULT_RANGE_STATUS + 10) Fmt_BE_H) (\<lambda>v.
          io_then (register_write self INTERRUPT_CLEAR 0x01 Fmt_B) (io_return v))))"
  unfolding read_wait_interrupt_def
  by (intro emits_then emits_bind emits_poll emits_register_read emits_register_write
      emits_return TrueI)

section \<open>Facts about initialization and the calls that follow it\<close>

lemma io_then_resultE:
  assumes "fst (io_then m k tr) = Inr y"
  obtains tr' where "fst (k tr') = Inr y"
  using assms by (auto simp: io_then_apply split: prod.splits sum.splits)

lemma io_bind_resultE:
  assumes "fst (io_bind m f tr) = Inr y"
  obtains x tr' tr'' where "m tr = (Inr x, tr')" "fst (f x tr') = Inr y"
  using assms by (auto simp: io_bind_apply split: prod.splits sum.splits)

lemma init_after_capture_result:
  "fst (init_after_capture self tr) = Inr y \<Longrightarrow> y = self"
  unfolding init_after_capture_def
  by (elim io_then_resultE) (simp add: io_return_def)

lemma emits_calibrate: "emits (\<lambda>_. True) (calibrate self v)"
  unfolding calibrate_def calibrate_wait_def
  by (intro emits_then emits_register_write emits_poll TrueI)

lemma emits_spad_info: "emits (\<lambda>_. True) (spad_info self)"
  unfolding spad_info_def spad_info_wait_def
  by (intro emits_then emits_bind emits_config emits_flag emits_poll emits_register_read
      emits_return TrueI)

lemma emits_spad_calibration: "emits (\<lambda>_. True) (spad_calibration self)"
  unfolding spad_calibration_def
  by (intro emits_bind emits_spad_info)
     (auto simp: registers_read_def registers_write_def emits_def readfrom_mem_def
       writeto_mem_def io_bind_def io_return_def io_then_def config_apply Let_def
       list_all_iff)

lemma emits_msrc: "emits (\<lambda>_. True) (msrc_limits_disable self)"
  unfolding msrc_limits_disable_def
  by (intro emits_then emits_flag emits_return TrueI)

lemma emits_init_after_capture: "emits (\<lambda>_. True) (init_after_capture self)"
  unfolding init_after_capture_def
  by (intro emits_then emits_config emits_msrc emits_register_write emits_spad_calibration
      emits_flag emits_calibrate emits_return TrueI)

lemma init_captures:
  assumes "init self0 p tr0 = (Inr self, tr1)"
  shows "\<exists>b pre post. length pre = 6 \<and>
           tr1 = tr0 @ pre @ BusRead (address self0) 0x91 [b] # post \<and>
           self = self0\<lparr>stop_variable := uint b\<rparr>"
proof -
  let ?a = "address self0"
  let ?d = "i2c self0 tr0 ?a EXTSUP_HV 0"
  let ?pre = "[BusRead ?a EXTSUP_HV [?d],
               BusWrite ?a EXTSUP_HV [if p then ?d OR push_bit 0 1 else ?d AND NOT (push_bit 0 1)]]
              @ writes self0 [(0x88, 0x00), (0x80, 0x01), (0xff, 0x01), (0x00, 0x00)]"
  let ?b = "i2c self0 (tr0 @ ?pre) ?a 0x91 0"
  let ?self = "self0\<lparr>stop_variable := uint ?b\<rparr>"
  have unfold: "init self0 p tr0 =
      init_after_capture ?self ((tr0 @ ?pre) @ [BusRead ?a 0x91 [?b]])"
    by (cases p) (simp_all add: init_def io_eval Let_def)
  from emitsD [OF emits_init_after_capture, of ?self "(tr0 @ ?pre) @ [BusRead ?a 0x91 [?b]]"]
  obtain evs where evs: "snd (init_after_capture ?self ((tr0 @ ?pre) @ [BusRead ?a 0x91 [?b]]))
      = ((tr0 @ ?pre) @ [BusRead ?a 0x91 [?b]]) @ evs"
    by blast
  have "fst (init self0 p tr0) = Inr self"
    by (simp only: assms fst_conv)
  then have "fst (init_after_capture ?self ((tr0 @ ?pre) @ [BusRead ?a 0x91 [?b]])) = Inr self"
    unfolding unfold .
  then have self: "self = ?self"
    by (rule init_after_capture_result)
  have "snd (init self0 p tr0) = tr1"
    by (simp only: assms snd_conv)
  then have tr1': "snd (init_after_capture ?self ((tr0 @ ?pre) @ [BusRead ?a 0x91 [?b]])) = tr1"
    unfolding unfold .
  have tr1: "tr1 = tr0 @ ?pre @ BusRead ?a 0x91 [?b] # evs"
    using evs unfolding tr1' by simp
  have "length ?pre = 6 \<and> tr1 = tr0 @ ?pre @ BusRead ?a 0x91 [?b] # evs \<and> self = ?self"
    using tr1 self by (simp add: writes_def)
  then show ?thesis by (intro exI)
qed

lemma start_result: "fst (start self p tr) = Inr y \<Longrightarrow> y = self\<lparr>started := True\<rparr>"
  unfolding start_def
  by (elim io_then_resultE) (simp add: io_return_def)

lemma stop_result: "fst (stop self tr) = Inr y \<Longrightarrow> y = self\<lparr>started := False\<rparr>"
  unfolding stop_def
  by (elim io_then_resultE) (simp add: io_return_def)

lemma run_call_stop_variable:
  "run_call self c tr = (Inr self', tr') \<Longrightarrow> stop_variable self' = stop_variable self"
proof (cases c)
  case (CallStart p)
  assume "run_call self c tr = (Inr self', tr')"
  with CallStart have "fst (start self p tr) = Inr self'" by simp
  from start_result [OF this] show ?thesis by simp
next
  case CallStop
  assume "run_call self c tr = (Inr self', tr')"
  with CallStop have "fst (stop self tr) = Inr self'" by simp
  from stop_result [OF this] show ?thesis by simp
next
  case CallRead
  assume "run_call self c tr = (Inr self', tr')"
  with CallRead show ?thesis
    by (auto simp: io_bind_apply io_return_def split: prod.splits sum.splits)
qed

lemma emits_start:
  "stop_variable self = uint b \<Longrightarrow> emits (restores b) (start self p)"
  unfolding start_def
  by (intro emits_then emits_config emits_if emits_bind emits_register_read
      emits_register_write emits_return)
     (auto simp: Let_def OSC_CALIBRATE_def MEASURE_PERIOD_def SYSRANGE_START_def
       intro!: emits_then emits_register_write)

lemma emits_stop:
  "stop_variable self = uint b \<Longrightarrow> emits (restores b) (stop self)"
  unfolding stop_def
  by (intro emits_then emits_config emits_register_write emits_return)
     (auto simp: SYSRANGE_START_def)

lemma emits_read:
  "stop_variable self = uint b \<Longrightarrow> emits (restores b) (read self)"
  unfolding read_def read_wait_start_def read_wait_interrupt_def read_preamble_def
  by (intro emits_then emits_config emits_if emits_bind emits_register_read emits_poll
      emits_register_write emits_return)
     (auto simp: SYSRANGE_START_def INTERRUPT_CLEAR_def)

lemma emits_run_call:
  "stop_variable self = uint b \<Longrightarrow> emits (restores b) (run_call self c)"
  by (cases c) (auto intro: emits_start emits_stop emits_read emits_bind emits_return)

lemma emits_run_calls:
  "stop_variable self = uint b \<Longrightarrow> emits (restores b) (run_calls self calls)"
proof (induction calls arbitrary: self)
  case Nil
  show ?case by (simp add: emits_return)
next
  case (Cons c cs)
  show ?case
    unfolding run_calls.simps
  proof (rule emits_bind_result)
    show "emits (restores b) (run_call self c)"
      by (rule emits_run_call) (rule Cons.prems)
  next
    fix self' tr tr'
    assume "run_call self c tr = (Inr self', tr')"
    from run_call_stop_variable [OF this] Cons.prems
    have "stop_variable self' = uint b" by simp
    then show "emits (restores b) (run_calls self' cs)" by (rule Cons.IH)
  qed
qed

lemma VL53L0X_new_init:
  assumes "VL53L0X_new obj addr tr0 = (Inr self, tr1)"
  shows "\<exists>bus self'. init \<lparr>i2c = bus, address = addr, stop_variable = 0, started = False\<rparr> True tr0
            = (Inr self', tr1) \<and> self = self'\<lparr>started := False\<rparr>"
  using assms
  by (cases obj)
     (auto simp: VL53L0X_new_def io_raise_def io_bind_apply io_return_def Let_def
       split: prod.splits sum.splits)

lemma VL53L0X_new_spad12:
  "\<exists>tr1. VL53L0X_new (PyMachineI2C (stateless spad12_regs)) 0x29 []
      = (Inr \<lparr>i2c = stateless spad12_regs, address = 0x29, stop_variable = 255,
               started = False\<rparr>, tr1)"
  by (simp add: VL53L0X_new_def init_def
      init_after_capture_def msrc_limits_disable_def spad_calibration_def
      spad_info_def spad_info_wait_def calibrate_def calibrate_wait_def IO_TIMEOUT_def
      io_eval poll_first_ready registers_read_6B registers_write_def writeto_mem_def
      RESULT_INTERRUPT_STATUS_def stateless_def spad12_regs_def Let_def)

section \<open>C3: the MSRC limit checks\<close>

text \<open>
  Claim C3 says that the step after the stop-variable capture clears two bits of the
  MSRC config register 0x60, so that both are 0 afterwards. The source calls
  \<^verbatim>\<open>_flag(_MSRC_CONFIG, 1, True)\<close> and \<^verbatim>\<open>_flag(_MSRC_CONFIG, 4, True)\<close>, and a true
  value makes \<^verbatim>\<open>_flag\<close> OR the mask in. On a register file that starts at 0 the
  register holds 0x12 after the step: bits 1 and 4 are 1, not 0.
\<close>

theorem msrc_bits_not_cleared:
  "\<not> (\<not> bit (register_file (snd (msrc_limits_disable (fresh_driver register_file) []))
               0x29 0x60 0) 1 \<and>
      \<not> bit (register_file (snd (msrc_limits_disable (fresh_driver register_file) []))
               0x29 0x60 0) 4)"
  by (simp add: msrc_limits_disable_def fresh_driver_def MSRC_CONFIG_def register_file_def
      io_then_Inr [OF flag_set [unfolded Let_def]] io_return_def)

text \<open>
  C3 as amended: the step sets bits 1 and 4 of register 0x60 by two read-modify-write
  operations. It writes back the byte it read with bit 1 set, reads the register again
  and writes that byte back with bit 4 set; it clears nothing. When the second read
  returns what the first write stored, the last byte written is the original byte
  OR 0x12.
\<close>

theorem msrc_limits_disable_sets_bits:
  "let a = address self;
       d1 = i2c self tr a MSRC_CONFIG 0;
       tr1 = tr @ [BusRead a MSRC_CONFIG [d1], BusWrite a MSRC_CONFIG [d1 OR 0x02]];
       d2 = i2c self tr1 a MSRC_CONFIG 0
   in msrc_limits_disable self tr =
        (Inr (), tr1 @ [BusRead a MSRC_CONFIG [d2], BusWrite a MSRC_CONFIG [d2 OR 0x10]])
      \<and> bit (d1 OR 0x02) 1 \<and> bit (d2 OR 0x10) 4
      \<and> (d2 = d1 OR 0x02 \<longrightarrow> d2 OR 0x10 = d1 OR 0x12)"
proof -
  have b1: "bit (d OR 0x02) 1" for d :: byte
    by (simp add: bit_or_iff)
  have b4: "bit (d OR 0x10) 4" for d :: byte
    by (simp add: bit_or_iff)
  have both: "(d OR 0x02) OR 0x10 = d OR 0x12" for d :: byte
    by (simp add: or.assoc)
  show ?thesis
    unfolding Let_def msrc_limits_disable_def
    by (simp add: io_then_Inr [OF flag_set [unfolded Let_def]] io_return_def
        b1 [unfolded One_nat_def] b4 both)
qed

theorem msrc_limits_disable_sets_bits_witness:
  "msrc_limits_disable (fresh_driver register_file) [] =
     (Inr (), [BusRead 0x29 0x60 [0], BusWrite 0x29 0x60 [0x02],
               BusRead 0x29 0x60 [0x02], BusWrite 0x29 0x60 [0x12]])"
  using msrc_limits_disable_sets_bits [of "fresh_driver register_file" "[]"]
  by (simp add: fresh_driver_def MSRC_CONFIG_def register_file_def Let_def)

section \<open>C10: the facade constructor\<close>

text \<open>
  Claim C10: \<^verbatim>\<open>Sensor_VL53L0X.__init__\<close> tests the module-global name \<^verbatim>\<open>i2c\<close>, not
  one of its arguments. Whatever the arguments are, when the module's namespace does
  not bind \<^verbatim>\<open>i2c\<close> the construction raises NameError and the trace is unchanged (no
  transport activity); and when it binds an object that is not a \<^verbatim>\<open>machine.I2C\<close>
  the construction raises TypeError, again whatever the arguments are.
\<close>

theorem facade_checks_global_i2c:
  "(globals ''i2c'' = None \<longrightarrow>
      Sensor_VL53L0X_new globals args tr = (Inl NameError, tr)) \<and>
   (\<forall>g. globals ''i2c'' = Some g \<and> \<not> is_machine_I2C g \<longrightarrow>
      Sensor_VL53L0X_new globals args tr = (Inl TypeError, tr))"
  by (simp add: Sensor_VL53L0X_new_def io_raise_def)

theorem facade_checks_global_i2c_witness:
  "Sensor_VL53L0X_new Map.empty
     \<lparr>arg_i2c = Some (PyMachineI2C register_file), arg_address = Some 0x29\<rparr> []
   = (Inl NameError, [])"
  using facade_checks_global_i2c
    [of Map.empty "\<lparr>arg_i2c = Some (PyMachineI2C register_file), arg_address = Some 0x29\<rparr>" "[]"]
  by simp


section \<open>C1, C2 and C9: the reference-SPAD mask\<close>

text \<open>
  Claim C1 says that the mask written back has exactly min(count, available set bits)
  bits enabled. On the device that reports 12 non-aperture SPADs and an all-ones map
  (48 bits set, none excluded), \<^verbatim>\<open>init\<close>'s SPAD phase reads that count and that map
  and writes back FF F7 CF 3F FF FF: 43 enabled bits, not 12. The loop counts bit
  \<^verbatim>\<open>i >> 2\<close> of byte \<^verbatim>\<open>i // 8\<close>, so the twelve steps 0 to 11 count bits 0 and 1 of
  byte 0 and bit 2 of byte 1 four times each, and the later steps clear one bit of
  byte 1 and two bits each of bytes 2 and 3.
\<close>

theorem spad_mask_count_12:
  "fst (spad_info (fresh_driver (stateless spad12_regs)) []) = Inr (12, False) \<and>
   BusRead 0x29 0xb0 [0xFF, 0xFF, 0xFF, 0xFF, 0xFF, 0xFF]
     \<in> set (snd (spad_calibration (fresh_driver (stateless spad12_regs)) [])) \<and>
   last (snd (spad_calibration (fresh_driver (stateless spad12_regs)) []))
     = BusWrite 0x29 0xb0 [0xFF, 0xF7, 0xCF, 0x3F, 0xFF, 0xFF] \<and>
   enabled_count [0xFF, 0xF7, 0xCF, 0x3F, 0xFF, 0xFF] = 43"
proof -
  obtain tr1 where
    i: "spad_info (fresh_driver (stateless spad12_regs)) [] = (Inr (12, False), tr1)"
    using spad_info_spad12 by blast
  have m: "map (i2c (fresh_driver (stateless spad12_regs)) tr1
                  (address (fresh_driver (stateless spad12_regs))) SPAD_ENABLES) [0..<6]
      = [0xFF, 0xFF, 0xFF, 0xFF, 0xFF, 0xFF]"
    by (simp add: fresh_driver_def SPAD_ENABLES_def all_ones_map)
  show ?thesis
    unfolding spad_calibration_apply [OF i] m spad_loop_12 i
    by (simp add: enabled_43 fresh_driver_def SPAD_ENABLES_def)
qed

text \<open>
  Claim C2 says that the mask written back never has more bits set than the count.
  On the device that reports 5 aperture SPADs and an all-ones map, the SPAD phase
  writes back FC FB CF 3F FF FF: 41 enabled bits, more than 5.
\<close>

theorem spad_mask_count_5_aperture:
  "fst (spad_info (fresh_driver (stateless spad5a_regs)) []) = Inr (5, True) \<and>
   BusRead 0x29 0xb0 [0xFF, 0xFF, 0xFF, 0xFF, 0xFF, 0xFF]
     \<in> set (snd (spad_calibration (fresh_driver (stateless spad5a_regs)) [])) \<and>
   last (snd (spad_calibration (fresh_driver (stateless spad5a_regs)) []))
     = BusWrite 0x29 0xb0 [0xFC, 0xFB, 0xCF, 0x3F, 0xFF, 0xFF] \<and>
   enabled_count [0xFC, 0xFB, 0xCF, 0x3F, 0xFF, 0xFF] = 41"
proof -
  obtain tr1 where
    i: "spad_info (fresh_driver (stateless spad5a_regs)) [] = (Inr (5, True), tr1)"
    using spad_info_spad5a by blast
  have m: "map (i2c (fresh_driver (stateless spad5a_regs)) tr1
                  (address (fresh_driver (stateless spad5a_regs))) SPAD_ENABLES) [0..<6]
      = [0xFF, 0xFF, 0xFF, 0xFF, 0xFF, 0xFF]"
    by (simp add: fresh_driver_def SPAD_ENABLES_def all_ones_map)
  show ?thesis
    unfolding spad_calibration_apply [OF i] m spad_loop_5a i
    by (simp add: enabled_41 fresh_driver_def SPAD_ENABLES_def)
qed

text \<open>
  Claim C9: for the element indices 32 to 47 the mask \<^verbatim>\<open>1 << (i >> 2)\<close> is at least
  \<open>2 ^ 8\<close>, so a step of the loop at such an index changes neither the map nor the
  counter, whatever the count, the aperture flag and the state are: the loop is the
  loop over the indices 0 to 31, and it leaves bytes 4 and 5 of any map as they are.
  In \<^verbatim>\<open>init\<close>: whenever the SPAD-info phase returns, the SPAD phase reads six bytes
  from register 0xB0 and writes six bytes back, the result of the loop on the bytes
  read, and bytes 4 and 5 written are the bytes 4 and 5 read.
\<close>

theorem spad_high_elements_inert:
  assumes "spad_info self tr = (Inr (c, ap), tr1)"
  shows "(\<forall>i \<in> {32..<48}. (2 :: int) ^ 8 \<le> push_bit (drop_bit 2 i) 1 \<and>
            (\<forall>st. spad_step c' ap' st i = st)) \<and>
         spad_loop c' ap' m0 = foldl (spad_step c' ap') (m0, 0) [0..<32] \<and>
         drop 4 (fst (spad_loop c' ap' m0)) = drop 4 m0 \<and>
         (\<exists>m m' mid. length m = 6 \<and> length m' = 6 \<and>
            snd (spad_calibration self tr) =
              tr1 @ [BusRead (address self) SPAD_ENABLES m] @ mid @
                    [BusWrite (address self) SPAD_ENABLES m'] \<and>
            m' = fst (spad_loop c ap m) \<and> drop 4 m' = drop 4 m)"
proof -
  have inert: "\<forall>i \<in> {32..<48}. (2 :: int) ^ 8 \<le> push_bit (drop_bit 2 i) 1 \<and>
            (\<forall>st. spad_step c' ap' st i = st)"
    using high_mask spad_step_high by simp
  let ?m = "map (i2c self tr1 (address self) SPAD_ENABLES) [0..<6]"
  let ?mid = "writes self
                [(0xff, 0x01), (SPAD_REF_START, 0x00), (SPAD_NUM_REQUESTED, 0x2c),
                 (0xff, 0x00), (REF_EN_START_SELECT, 0xb4)]"
  have "length ?m = 6 \<and> length (fst (spad_loop c ap ?m)) = 6 \<and>
        snd (spad_calibration self tr) =
          tr1 @ [BusRead (address self) SPAD_ENABLES ?m] @ ?mid @
                [BusWrite (address self) SPAD_ENABLES (fst (spad_loop c ap ?m))] \<and>
        fst (spad_loop c ap ?m) = fst (spad_loop c ap ?m) \<and>
        drop 4 (fst (spad_loop c ap ?m)) = drop 4 ?m"
    by (simp add: spad_calibration_apply [OF assms] spad_loop_length spad_loop_drop4)
  then have written: "\<exists>m m' mid. length m = 6 \<and> length m' = 6 \<and>
            snd (spad_calibration self tr) =
              tr1 @ [BusRead (address self) SPAD_ENABLES m] @ mid @
                    [BusWrite (address self) SPAD_ENABLES m'] \<and>
            m' = fst (spad_loop c ap m) \<and> drop 4 m' = drop 4 m"
    by blast
  from inert spad_loop_low [of c' ap' m0] spad_loop_drop4 [of c' ap' m0] written
  show ?thesis by blast
qed

theorem spad_high_elements_inert_witness:
  "\<exists>tr1 m m' mid.
     spad_info (fresh_driver (stateless spad5a_regs)) [] = (Inr (5, True), tr1) \<and>
     spad_step 3 False ([0x0F, 0x00, 0xF0, 0x00, 0xA5, 0x5A], 1) 40
       = ([0x0F, 0x00, 0xF0, 0x00, 0xA5, 0x5A], 1) \<and>
     drop 4 (fst (spad_loop 3 False [0x0F, 0x00, 0xF0, 0x00, 0xA5, 0x5A])) = [0xA5, 0x5A] \<and>
     snd (spad_calibration (fresh_driver (stateless spad5a_regs)) []) =
       tr1 @ [BusRead 0x29 0xb0 m] @ mid @ [BusWrite 0x29 0xb0 m'] \<and>
     drop 4 m' = drop 4 m"
proof -
  obtain tr1 where
    i: "spad_info (fresh_driver (stateless spad5a_regs)) [] = (Inr (5, True), tr1)"
    using spad_info_spad5a by blast
  have addr: "address (fresh_driver (stateless spad5a_regs)) = 0x29"
    by (simp add: fresh_driver_def)
  have "(40 :: nat) \<in> {32..<48}" by simp
  with spad_high_elements_inert
         [OF i, of 3 False "[0x0F, 0x00, 0xF0, 0x00, 0xA5, 0x5A]"]
  show ?thesis
    unfolding addr SPAD_ENABLES_def using i by auto
qed


section \<open>C8: the polling loops\<close>

text \<open>
  Claim C8: each of the four polling loops of the driver (the SPAD-info readiness
  wait on register 0x83, the calibration wait on the interrupt status, and the two
  waits of \<^verbatim>\<open>read\<close> on the range-start register and on the interrupt status) makes at
  most 1000 polls, sleeps one millisecond after every unsuccessful poll, raises
  TimeoutError after the 1000th unsuccessful poll and otherwise returns at the first
  successful one. The loops are total functions: none can iterate without bound.
\<close>

theorem polling_loops_bounded:
  "bounded_wait 1000 self 0x83 (\<lambda>v. v \<noteq> 0) (spad_info_wait self) \<and>
   bounded_wait 1000 self RESULT_INTERRUPT_STATUS (\<lambda>v. v AND 0x07 \<noteq> 0) (calibrate_wait self) \<and>
   bounded_wait 1000 self SYSRANGE_START (\<lambda>v. \<not> (v AND 0x01 \<noteq> 0)) (read_wait_start self) \<and>
   bounded_wait 1000 self RESULT_INTERRUPT_STATUS (\<lambda>v. v AND 0x07 \<noteq> 0)
     (read_wait_interrupt self)"
  unfolding spad_info_wait_def calibrate_wait_def read_wait_start_def
    read_wait_interrupt_def IO_TIMEOUT_def
  by (intro conjI poll_bounded_wait)


section \<open>C4: the measurement period\<close>

text \<open>
  When the product of the period and the oscillator-calibration value fits the
  two-byte field, \<^verbatim>\<open>start\<close> writes exactly that product to the measurement-period
  register, big-endian, and then 0x04 to the range-start register.
\<close>

lemma decode_encode_be_2:
  assumes "0 \<le> v" and "v < 2 ^ 16"
  shows "decode_be (encode_be 2 v) = v"
proof -
  have hi: "uint (word_of_int (v div 256) :: byte) = v div 256"
    using assms by (simp add: uint_word_of_int pos_imp_zdiv_nonneg_iff)
  have lo: "uint (word_of_int v :: byte) = v mod 256"
    by (simp add: uint_word_of_int)
  show ?thesis
    by (simp add: decode_be_def numeral_2_eq_2 drop_bit_eq_div hi lo)
qed

lemma start_in_range_writes_product:
  assumes "tr1 = tr @
      [BusWrite (address self) 0x80 [0x01], BusWrite (address self) 0xFF [0x01],
       BusWrite (address self) 0x00 [0x00],
       BusWrite (address self) 0x91 [word_of_int (stop_variable self)],
       BusWrite (address self) 0x00 [0x01], BusWrite (address self) 0xFF [0x00],
       BusWrite (address self) 0x80 [0x00]]"
    and "hi = i2c self tr1 (address self) OSC_CALIBRATE 0"
    and "lo = i2c self tr1 (address self) OSC_CALIBRATE 1"
    and "osc = uint hi * 256 + uint lo"
    and "period \<noteq> 0" and "osc \<noteq> 0"
    and "0 \<le> period * osc" and "period * osc < 2 ^ 16"
  shows "start self period tr =
      (Inr (self\<lparr>started := True\<rparr>),
       tr1 @ [BusRead (address self) OSC_CALIBRATE [hi, lo],
              BusWrite (address self) MEASURE_PERIOD (encode_be 2 (period * osc)),
              BusWrite (address self) SYSRANGE_START [0x04]]) \<and>
     decode_be (encode_be 2 (period * osc)) = period * osc"
proof -
  have tr1: "tr @ writes self
      [(0x80, 0x01), (0xFF, 0x01), (0x00, 0x00), (0x91, stop_variable self),
       (0x00, 0x01), (0xFF, 0x00), (0x80, 0x00)] = tr1"
    by (simp add: assms(1) writes_def)
  have osc: "uint (i2c self tr1 (address self) OSC_CALIBRATE 0) * 256 +
             uint (i2c self tr1 (address self) OSC_CALIBRATE (Suc 0)) = osc"
    by (simp add: assms(2,3,4))
  have run: "start self period tr =
      (Inr (self\<lparr>started := True\<rparr>),
       tr1 @ [BusRead (address self) OSC_CALIBRATE [hi, lo],
              BusWrite (address self) MEASURE_PERIOD (encode_be 2 (period * osc)),
              BusWrite (address self) SYSRANGE_START [0x04]])"
    using assms(5,6)
    by (simp add: start_def io_eval tr1 osc assms(2,3) numeral_2_eq_2 drop_bit_eq_div Let_def)
  from run decode_encode_be_2 [OF assms(7,8)] show ?thesis by (rule conjI)
qed

text \<open>
  Claim C4 says that \<^verbatim>\<open>start(period=100)\<close>, with the oscillator-calibration register
  reading 0x0400, writes the value 100 * 0x0400 to the measurement-period register as
  two big-endian bytes. The source multiplies the period by the oscillator value and
  hands the product, 102400 = 0x19000, to \<^verbatim>\<open>ustruct.pack('>H', ...)\<close> with no range
  check; the two-byte field cannot hold it. The code evaluated at this input: the
  bytes written to register 0x04 are 90 00, which read back as 36864, not as
  100 * 0x0400.
\<close>

theorem start_period_100_overflows:
  "snd (start (fresh_driver (stateless osc_regs)) 100 []) =
     [BusWrite 0x29 0x80 [0x01], BusWrite 0x29 0xFF [0x01], BusWrite 0x29 0x00 [0x00],
      BusWrite 0x29 0x91 [0x00], BusWrite 0x29 0x00 [0x01], BusWrite 0x29 0xFF [0x00],
      BusWrite 0x29 0x80 [0x00],
      BusRead 0x29 0xf8 [0x04, 0x00],
      BusWrite 0x29 0x04 [0x90, 0x00],
      BusWrite 0x29 0x00 [0x04]] \<and>
   decode_be [0x90, 0x00] \<noteq> 100 * 0x0400"
  by (simp add: start_def io_eval writes_def fresh_driver_def stateless_def osc_regs_def
      OSC_CALIBRATE_def MEASURE_PERIOD_def SYSRANGE_START_def decode_be_def drop_bit_eq_div)

section \<open>C7: the single-shot preamble of read\<close>

text \<open>
  Claim C7: \<^verbatim>\<open>read()\<close> issues the single-shot preamble exactly when \<^verbatim>\<open>_started\<close>
  is false. Whatever the device answers, the events \<^verbatim>\<open>read\<close> appends to the trace begin
  with the eight preamble writes (mode select, the stop variable to 0x91, 0x01 to
  range-start) when the flag is false and with nothing when it is true, and the next
  event is the first poll of the range-start register.
\<close>

theorem read_preamble_iff_not_started:
  "\<exists>d rest. snd (read self tr) =
     tr @ (if started self then []
           else [BusWrite (address self) 0x80 [0x01], BusWrite (address self) 0xFF [0x01],
                 BusWrite (address self) 0x00 [0x00],
                 BusWrite (address self) 0x91 [word_of_int (stop_variable self)],
                 BusWrite (address self) 0x00 [0x01], BusWrite (address self) 0xFF [0x00],
                 BusWrite (address self) 0x80 [0x00],
                 BusWrite (address self) SYSRANGE_START [0x01]])
        @ BusRead (address self) SYSRANGE_START [d] # rest"
proof -
  let ?pre = "if started self then []
           else [BusWrite (address self) 0x80 [0x01], BusWrite (address self) 0xFF [0x01],
                 BusWrite (address self) 0x00 [0x00],
                 BusWrite (address self) 0x91 [word_of_int (stop_variable self)],
                 BusWrite (address self) 0x00 [0x01], BusWrite (address self) 0xFF [0x00],
                 BusWrite (address self) 0x80 [0x00],
                 BusWrite (address self) SYSRANGE_START [0x01]]"
  let ?tail = "io_then (read_wait_interrupt self)
       (io_bind (register_read self (RESULT_RANGE_STATUS + 10) Fmt_BE_H) (\<lambda>v.
          io_then (register_write self INTERRUPT_CLEAR 0x01 Fmt_B) (io_return v)))"
  have pre: "(if \<not> started self then config self (read_preamble self) else io_return ()) tr
      = (Inr (), tr @ ?pre)"
    by (simp add: config_apply writes_def read_preamble_def io_return_def)
  have split: "read self tr = io_then (read_wait_start self) ?tail (tr @ ?pre)"
    unfolding read_def
    by (rule io_then_Inr
        [of "if \<not> started self then config self (read_preamble self) else io_return ()" tr,
         OF pre])
  obtain n where n: "IO_TIMEOUT = Suc n" by (simp add: IO_TIMEOUT_def numeral_eq_Suc)
  obtain r tr2 where w: "read_wait_start self (tr @ ?pre) = (r, tr2)"
    by (cases "read_wait_start self (tr @ ?pre)")
  have w': "poll self SYSRANGE_START (\<lambda>v. \<not> (v AND 0x01 \<noteq> 0)) (Suc n) (tr @ ?pre) = (r, tr2)"
    using w unfolding read_wait_start_def n .
  from poll_head [of self SYSRANGE_START "\<lambda>v. \<not> (v AND 0x01 \<noteq> 0)" n "tr @ ?pre"]
  obtain rest where rest:
    "snd (poll self SYSRANGE_START (\<lambda>v. \<not> (v AND 0x01 \<noteq> 0)) (Suc n) (tr @ ?pre)) =
       (tr @ ?pre) @
       BusRead (address self) SYSRANGE_START
         [i2c self (tr @ ?pre) (address self) SYSRANGE_START 0] # rest"
    by (rule exE)
  have tr2: "tr2 = (tr @ ?pre) @
      BusRead (address self) SYSRANGE_START
        [i2c self (tr @ ?pre) (address self) SYSRANGE_START 0] # rest"
    using rest unfolding w' by (simp only: snd_conv)
  show ?thesis
  proof (cases r)
    case (Inl e)
    with w have "snd (read self tr) = tr2"
      by (simp add: split io_then_apply)
    then show ?thesis unfolding tr2 by auto
  next
    case (Inr u)
    from emitsD [OF read_tail_emits, of self tr2]
    obtain evs where "snd (?tail tr2) = tr2 @ evs" by blast
    with w Inr have "snd (read self tr) = tr2 @ evs"
      by (simp add: split io_then_apply)
    then show ?thesis unfolding tr2 by auto
  qed
qed

section \<open>C6: the timeout of the first wait of read\<close>

text \<open>
  Claim C6: let \<open>tr1\<close> be the trace after the preamble (or the trace of the call, when
  \<^verbatim>\<open>_started\<close> is true). When each of the 1000 polls of the range-start register, the
  \<open>k\<close>-th made after \<open>k\<close> unsuccessful ones, is answered with bit 0 set, \<^verbatim>\<open>read\<close>
  raises TimeoutError, and what it appended to \<open>tr1\<close> is exactly those 1000 polls, each
  followed by its one-millisecond sleep: no register is read or written after the
  1000th poll.
\<close>

theorem read_times_out:
  assumes "tr1 = tr @
      (if started self then []
       else [BusWrite (address self) 0x80 [0x01], BusWrite (address self) 0xFF [0x01],
             BusWrite (address self) 0x00 [0x00],
             BusWrite (address self) 0x91 [word_of_int (stop_variable self)],
             BusWrite (address self) 0x00 [0x01], BusWrite (address self) 0xFF [0x00],
             BusWrite (address self) 0x80 [0x00],
             BusWrite (address self) SYSRANGE_START [0x01]])"
    and "\<forall>k<1000. bit (poll_reply self SYSRANGE_START tr1 k) 0"
  shows "\<exists>ds. length ds = 1000 \<and> list_all (\<lambda>d. bit d 0) ds \<and>
           read self tr =
             (Inl TimeoutError,
              tr1 @ concat (map (\<lambda>d. [BusRead (address self) SYSRANGE_START [d], Sleep 1]) ds))"
proof -
  let ?ds = "map (poll_reply self SYSRANGE_START tr1) [0..<IO_TIMEOUT]"
  have pre: "(if \<not> started self then config self (read_preamble self) else io_return ()) tr
      = (Inr (), tr1)"
    by (simp add: assms(1) config_apply writes_def read_preamble_def io_return_def)
  have busy: "\<not> \<not> (uint (poll_reply self SYSRANGE_START tr1 k) AND 0x01 \<noteq> 0)"
    if "k < IO_TIMEOUT" for k
    using assms(2) that by (simp add: bit0_test IO_TIMEOUT_def)
  have wait: "read_wait_start self tr1 =
      (Inl TimeoutError, busy_trace self SYSRANGE_START tr1 IO_TIMEOUT)"
    unfolding read_wait_start_def by (rule poll_timeout) (rule busy)
  have r: "read self tr = (Inl TimeoutError, busy_trace self SYSRANGE_START tr1 IO_TIMEOUT)"
    unfolding read_def
    by (simp only: io_then_Inr
        [of "if \<not> started self then config self (read_preamble self) else io_return ()" tr,
         OF pre]
        io_then_Inl [of "read_wait_start self" tr1, OF wait])
  have len: "length ?ds = 1000" by (simp add: IO_TIMEOUT_def)
  have all: "list_all (\<lambda>d. bit d 0) ?ds"
    using assms(2) by (simp add: list_all_iff IO_TIMEOUT_def)
  have "length ?ds = 1000 \<and> list_all (\<lambda>d. bit d 0) ?ds \<and>
           read self tr =
             (Inl TimeoutError,
              tr1 @ concat (map (\<lambda>d. [BusRead (address self) SYSRANGE_START [d], Sleep 1]) ?ds))"
    using len all r by (simp only: busy_trace_replies simp_thms)
  then show ?thesis by (rule exI [of _ ?ds])
qed

theorem read_times_out_witness:
  "\<exists>ds. length ds = 1000 \<and> list_all (\<lambda>d. bit d 0) ds \<and>
     read (fresh_driver (stateless busy_regs)\<lparr>started := True\<rparr>) [] =
       (Inl TimeoutError, concat (map (\<lambda>d. [BusRead 0x29 0x00 [d], Sleep 1]) ds))"
  using read_times_out
    [of "[]" "[]" "fresh_driver (stateless busy_regs)\<lparr>started := True\<rparr>"]
  by (simp add: fresh_driver_def poll_reply_def stateless_def busy_regs_def SYSRANGE_START_def)


section \<open>C5: the stop variable\<close>

text \<open>
  Claim C5: whenever the constructor returns a driver object, its initialization has
  read one byte \<open>b\<close> from register 0x91 (the seventh bus transaction of \<^verbatim>\<open>init\<close>) and
  the object's stop variable is that byte; and in every later sequence of calls of
  \<^verbatim>\<open>start\<close>, \<^verbatim>\<open>stop\<close> and \<^verbatim>\<open>read\<close>, from any trace, every write to register 0x91
  writes exactly \<open>b\<close>.
\<close>

theorem stop_variable_reused:
  assumes "VL53L0X_new obj addr tr0 = (Inr self, tr1)"
  shows "\<exists>b pre post. length pre = 6 \<and>
           tr1 = tr0 @ pre @ BusRead addr 0x91 [b] # post \<and>
           stop_variable self = uint b \<and>
           (\<forall>calls. emits (restores b) (run_calls self calls))"
proof -
  from VL53L0X_new_init [OF assms] obtain bus self' where
    i: "init \<lparr>i2c = bus, address = addr, stop_variable = 0, started = False\<rparr> True tr0
            = (Inr self', tr1)" and s: "self = self'\<lparr>started := False\<rparr>"
    by blast
  from init_captures [OF i] obtain b pre post where
    c: "length pre = 6" "tr1 = tr0 @ pre @ BusRead addr 0x91 [b] # post"
       "self' = \<lparr>i2c = bus, address = addr, stop_variable = 0, started = False\<rparr>
                 \<lparr>stop_variable := uint b\<rparr>"
    by auto
  have sv: "stop_variable self = uint b" by (simp add: s c(3))
  have "length pre = 6 \<and> tr1 = tr0 @ pre @ BusRead addr 0x91 [b] # post \<and>
        stop_variable self = uint b \<and> (\<forall>calls. emits (restores b) (run_calls self calls))"
    using c(1,2) sv emits_run_calls [OF sv] by blast
  then show ?thesis by (intro exI)
qed

theorem stop_variable_reused_witness:
  "\<exists>self tr1 evs.
     VL53L0X_new (PyMachineI2C (stateless spad12_regs)) 0x29 [] = (Inr self, tr1) \<and>
     stop_variable self = 255 \<and>
     BusRead 0x29 0x91 [255] \<in> set tr1 \<and>
     snd (run_calls self [CallStart 100, CallRead, CallStop] tr1) = tr1 @ evs \<and>
     list_all (restores 255) evs"
proof -
  let ?self = "\<lparr>i2c = stateless spad12_regs, address = 0x29, stop_variable = 255,
                started = False\<rparr>"
  from VL53L0X_new_spad12 obtain tr1 where
    new: "VL53L0X_new (PyMachineI2C (stateless spad12_regs)) 0x29 [] = (Inr ?self, tr1)"
    by (rule exE)
  from stop_variable_reused [OF new] obtain b pre post where
    b: "tr1 = [] @ pre @ BusRead 0x29 0x91 [b] # post" "stop_variable ?self = uint b"
       "\<forall>calls. emits (restores b) (run_calls ?self calls)"
    by blast
  from b(2) have "uint b = uint (255 :: byte)" by simp
  then have b255: "b = 255" by (simp only: word_uint_eq_iff)
  from b(3) have "emits (restores 255) (run_calls ?self [CallStart 100, CallRead, CallStop])"
    unfolding b255 by (rule spec)
  from emitsD [OF this, of tr1] obtain evs where
    evs: "snd (run_calls ?self [CallStart 100, CallRead, CallStop] tr1) = tr1 @ evs"
         "list_all (restores 255) evs"
    by blast
  have mem: "BusRead 0x29 0x91 [255] \<in> set tr1"
    using b(1) unfolding b255 by simp
  have "VL53L0X_new (PyMachineI2C (stateless spad12_regs)) 0x29 [] = (Inr ?self, tr1) \<and>
     stop_variable ?self = 255 \<and>
     BusRead 0x29 0x91 [255] \<in> set tr1 \<and>
     snd (run_calls ?self [CallStart 100, CallRead, CallStop] tr1) = tr1 @ evs \<and>
     list_all (restores 255) evs"
    using new mem evs by simp
  then show ?thesis by (intro exI)
qed

end
